theory Spec2Isabelle
  imports Main
begin

section \<open>Python values, dictionaries and exceptions\<close>

text \<open>
  The program of \<^verbatim>\<open>techhealth_agent.py\<close> passes its results around as Python
  dictionaries with string keys. A dictionary is modelled as an association list in
  insertion order (the order of the keys in the dict literal of the source), its values
  are strings, integers, lists or dictionaries again.
\<close>

datatype pyval =
    PStr string
  | PInt int
  | PList "pyval list"
  | PDict "(string \<times> pyval) list"

type_synonym dict = "(string \<times> pyval) list"

text \<open>\<^verbatim>\<open>d.get(k, default)\<close>\<close>

definition dict_get :: "dict \<Rightarrow> string \<Rightarrow> pyval \<Rightarrow> pyval" where
  "dict_get d k dflt = (case map_of d k of None \<Rightarrow> dflt | Some v \<Rightarrow> v)"

text \<open>
  Exceptions are values: the class, \<^verbatim>\<open>KeyError\<close> or any other subclass of
  \<^verbatim>\<open>Exception\<close>, and the text that \<^verbatim>\<open>str(e)\<close> gives for the exception. A
  computation that may raise returns an \<open>outcome\<close>.
\<close>

datatype exn = KeyError string | Error string

datatype 'a outcome = Raised exn | Returned 'a

text \<open>\<^verbatim>\<open>str(e)\<close>\<close>

fun str_exn :: "exn \<Rightarrow> string" where
  "str_exn (Error m) = m"
| "str_exn (KeyError m) = m"

text \<open>
  The exception of the subscript \<^verbatim>\<open>d['status']\<close> on a dictionary without that
  key: \<^verbatim>\<open>str\<close> of a \<^verbatim>\<open>KeyError\<close> is the \<^verbatim>\<open>repr\<close> of the key, here the
  word in single quotes.
\<close>

definition missing_status :: exn where
  "missing_status = KeyError ([CHR 0x27] @ ''status'' @ [CHR 0x27])"

section \<open>The environment: clock and generative model\<close>

text \<open>
  Two things come from outside the program: the wall clock read by
  \<^verbatim>\<open>datetime.now()\<close> and the Gemini model called by
  \<^verbatim>\<open>self.model.generate_content(prompt)\<close>. Both are parameters of the model.
  A clock reading is a number of microseconds (the resolution of a Python
  \<^verbatim>\<open>datetime\<close>); \<open>now e n\<close> is what the \<open>n\<close>-th read of the clock returns, and
  nothing is assumed about it: a wall clock need not advance between two reads and may
  be set back. \<open>isoformat\<close> and \<open>timestamp\<close> give the text of
  \<^verbatim>\<open>.isoformat()\<close> and of the float \<^verbatim>\<open>.timestamp()\<close> inside an f-string.
  \<open>generate_content e n prompt\<close> is the outcome of the \<open>n\<close>-th call of the model: the
  call raises, or it returns a response whose \<^verbatim>\<open>.text\<close> raises or is a string.
  \<open>str_of\<close> is Python's \<^verbatim>\<open>str\<close> on the values that are not strings; it may
  raise (\<^verbatim>\<open>ValueError\<close> for an integer of more than 4300 digits, for one).
\<close>

type_synonym datetime = nat

type_synonym response = "string outcome"

record env =
  now :: "nat \<Rightarrow> datetime"
  isoformat :: "datetime \<Rightarrow> string"
  timestamp :: "datetime \<Rightarrow> string"
  generate_content :: "nat \<Rightarrow> string \<Rightarrow> response outcome"
  str_of :: "pyval \<Rightarrow> string outcome"

text \<open>The world counts the clock reads and the model calls made so far.\<close>

record world =
  clock_reads :: nat
  model_calls :: nat

definition datetime_now :: "env \<Rightarrow> world \<Rightarrow> datetime \<times> world" where
  "datetime_now e w = (now e (clock_reads w), w\<lparr>clock_reads := Suc (clock_reads w)\<rparr>)"

definition model_generate :: "env \<Rightarrow> world \<Rightarrow> string \<Rightarrow> response outcome \<times> world" where
  "model_generate e w prompt =
     (generate_content e (model_calls w) prompt, w\<lparr>model_calls := Suc (model_calls w)\<rparr>)"

text \<open>A value inside an f-string: a string is itself, anything else goes through \<^verbatim>\<open>str\<close>.\<close>

definition fmt :: "env \<Rightarrow> pyval \<Rightarrow> string outcome" where
  "fmt e v = (case v of PStr s \<Rightarrow> Returned s | _ \<Rightarrow> str_of e v)"

text \<open>
  An f-string evaluates its parts from left to right and joins them; the first part
  that raises ends the evaluation with its exception.
\<close>

fun render :: "string outcome list \<Rightarrow> string outcome" where
  "render [] = Returned []"
| "render (part # parts) =
     (case part of
        Raised ex \<Rightarrow> Raised ex
      | Returned s \<Rightarrow>
          (case render parts of
             Raised ex \<Rightarrow> Raised ex
           | Returned rest \<Rightarrow> Returned (s @ rest)))"

section \<open>Prompt templates\<close>

text \<open>
  The prompts are triple-quoted f-strings: a newline, then lines indented by eight
  spaces (also the empty ones), and eight spaces before the closing quotes. The values
  of the caller's dictionaries are rendered inside them, which can raise.
\<close>

definition indent :: string where
  "indent = ''        ''"

definition ln :: "string \<Rightarrow> string" where
  "ln s = indent @ s @ [CHR 0x0A]"

definition health_prompt :: "env \<Rightarrow> dict \<Rightarrow> string outcome" where
  "health_prompt e user_data =
     render
       [Returned ([CHR 0x0A]
          @ ln ''As a health monitoring AI, analyze the following health metrics:''
          @ ln ''''
          @ indent @ ''Heart Rate: ''),
        fmt e (dict_get user_data ''heart_rate'' (PStr ''N/A'')),
        Returned ('' bpm'' @ [CHR 0x0A] @ indent @ ''Blood Pressure: ''),
        fmt e (dict_get user_data ''blood_pressure'' (PStr ''N/A'')),
        Returned ([CHR 0x0A] @ indent @ ''Sleep Hours: ''),
        fmt e (dict_get user_data ''sleep_hours'' (PStr ''N/A'')),
        Returned ([CHR 0x0A] @ indent @ ''Activity Level: ''),
        fmt e (dict_get user_data ''activity_level'' (PStr ''N/A'')),
        Returned ([CHR 0x0A]
          @ ln ''''
          @ ln ''Provide:''
          @ ln ''1. Risk level (Low/Medium/High)''
          @ ln ''2. Key concerns if any''
          @ ln ''3. Suggested monitoring frequency''
          @ ln ''''
          @ ln ''Respond in JSON format.''
          @ indent)]"

definition recommendation_prompt :: "env \<Rightarrow> dict \<Rightarrow> dict \<Rightarrow> string outcome" where
  "recommendation_prompt e user_profile health_analysis =
     render
       [Returned ([CHR 0x0A]
          @ ln (''Based on the user profile and health analysis, ''
                 @ ''provide personalized recommendations:'')
          @ ln ''''
          @ ln ''User Profile:''
          @ indent @ ''- Age: ''),
        fmt e (dict_get user_profile ''age'' (PStr ''N/A'')),
        Returned ([CHR 0x0A] @ indent @ ''- Fitness Goal: ''),
        fmt e (dict_get user_profile ''fitness_goal'' (PStr ''N/A'')),
        Returned ([CHR 0x0A] @ indent @ ''- Dietary Preferences: ''),
        fmt e (dict_get user_profile ''dietary_preferences'' (PStr ''N/A'')),
        Returned ([CHR 0x0A]
          @ ln ''''
          @ ln ''Health Analysis:''
          @ indent),
        fmt e (dict_get health_analysis ''analysis'' (PStr ''No analysis available'')),
        Returned ([CHR 0x0A]
          @ ln ''''
          @ ln ''Provide:''
          @ ln ''1. 3 actionable nutrition tips''
          @ ln ''2. 3 exercise recommendations''
          @ ln ''3. 2 lifestyle adjustments''
          @ ln ''''
          @ ln ''Make recommendations specific and achievable.''
          @ indent)]"

text \<open>The question is a string, so this f-string cannot raise.\<close>

definition question_prompt :: "string \<Rightarrow> string" where
  "question_prompt question =
     [CHR 0x0A]
     @ ln ''As a medical information assistant, answer this health question accurately:''
     @ ln ''''
     @ ln (''Question: '' @ question)
     @ ln ''''
     @ ln ''Provide:''
     @ ln ''1. Clear, evidence-based answer''
     @ ln ''2. Important disclaimers''
     @ ln ''3. When to consult a healthcare professional''
     @ ln ''''
     @ ln (''Note: Always emphasize this is informational and not a substitute ''
            @ ''for professional medical advice.'')
     @ indent"

section \<open>The three advisors\<close>

text \<open>
  Each advisor method renders its prompt and then runs a \<^verbatim>\<open>try\<close> block around the
  model call, with one handler \<^verbatim>\<open>except Exception as e\<close>. The prompt is rendered
  before the \<^verbatim>\<open>try\<close> block: an exception raised there leaves the method, with no
  model call and no clock read made. The \<^verbatim>\<open>try\<close> block is a function of its own
  that returns an outcome; the method maps an exception raised in it to the dictionary
  the handler returns. Inside the dict literal the clock is read before
  \<^verbatim>\<open>response.text\<close> is evaluated, so a failing \<^verbatim>\<open>.text\<close> still costs a clock
  read. The calls of the logger are left out: they change neither a result nor the
  session memory.
\<close>

text \<open>The handler's result, \<^verbatim>\<open>{'agent': self.name, 'status': 'error', 'error': str(e)}\<close>.\<close>

definition except_result :: "string \<Rightarrow> exn \<Rightarrow> dict" where
  "except_result name ex =
     [(''agent'', PStr name), (''status'', PStr ''error''), (''error'', PStr (str_exn ex))]"

text \<open>\<^verbatim>\<open>HealthMonitoringAgent.analyze_health_data\<close>\<close>

definition analyze_health_data_try :: "env \<Rightarrow> world \<Rightarrow> string \<Rightarrow> dict outcome \<times> world" where
  "analyze_health_data_try e w prompt =
     (let (r, w1) = model_generate e w prompt in
      case r of
        Raised ex \<Rightarrow> (Raised ex, w1)
      | Returned response \<Rightarrow>
          (let (t, w2) = datetime_now e w1 in
           case response of
             Raised ex \<Rightarrow> (Raised ex, w2)
           | Returned text \<Rightarrow>
               (Returned [(''agent'', PStr ''HealthMonitor''),
                          (''timestamp'', PStr (isoformat e t)),
                          (''analysis'', PStr text),
                          (''status'', PStr ''success'')], w2)))"

definition analyze_health_data :: "env \<Rightarrow> world \<Rightarrow> dict \<Rightarrow> dict outcome \<times> world" where
  "analyze_health_data e w user_data =
     (case health_prompt e user_data of
        Raised ex \<Rightarrow> (Raised ex, w)
      | Returned prompt \<Rightarrow>
          (let (r, w') = analyze_health_data_try e w prompt
           in case r of
                Returned result \<Rightarrow> (Returned result, w')
              | Raised ex \<Rightarrow> (Returned (except_result ''HealthMonitor'' ex), w')))"

text \<open>\<^verbatim>\<open>RecommendationAgent.generate_recommendations\<close>\<close>

definition generate_recommendations_try ::
  "env \<Rightarrow> world \<Rightarrow> string \<Rightarrow> dict outcome \<times> world" where
  "generate_recommendations_try e w prompt =
     (let (r, w1) = model_generate e w prompt in
      case r of
        Raised ex \<Rightarrow> (Raised ex, w1)
      | Returned response \<Rightarrow>
          (let (t, w2) = datetime_now e w1 in
           case response of
             Raised ex \<Rightarrow> (Raised ex, w2)
           | Returned text \<Rightarrow>
               (Returned [(''agent'', PStr ''RecommendationEngine''),
                          (''timestamp'', PStr (isoformat e t)),
                          (''recommendations'', PStr text),
                          (''status'', PStr ''success'')], w2)))"

definition generate_recommendations ::
  "env \<Rightarrow> world \<Rightarrow> dict \<Rightarrow> dict \<Rightarrow> dict outcome \<times> world" where
  "generate_recommendations e w user_profile health_analysis =
     (case recommendation_prompt e user_profile health_analysis of
        Raised ex \<Rightarrow> (Raised ex, w)
      | Returned prompt \<Rightarrow>
          (let (r, w') = generate_recommendations_try e w prompt
           in case r of
                Returned result \<Rightarrow> (Returned result, w')
              | Raised ex \<Rightarrow> (Returned (except_result ''RecommendationEngine'' ex), w')))"

text \<open>\<^verbatim>\<open>MedicalKnowledgeAgent.answer_question\<close>\<close>

definition answer_question_try ::
  "env \<Rightarrow> world \<Rightarrow> string \<Rightarrow> string \<Rightarrow> dict outcome \<times> world" where
  "answer_question_try e w question prompt =
     (let (r, w1) = model_generate e w prompt in
      case r of
        Raised ex \<Rightarrow> (Raised ex, w1)
      | Returned response \<Rightarrow>
          (let (t, w2) = datetime_now e w1 in
           case response of
             Raised ex \<Rightarrow> (Raised ex, w2)
           | Returned text \<Rightarrow>
               (Returned [(''agent'', PStr ''MedicalQA''),
                          (''timestamp'', PStr (isoformat e t)),
                          (''question'', PStr question),
                          (''answer'', PStr text),
                          (''status'', PStr ''success'')], w2)))"

definition answer_question :: "env \<Rightarrow> world \<Rightarrow> string \<Rightarrow> dict \<times> world" where
  "answer_question e w question =
     (let prompt = question_prompt question;
          (r, w') = answer_question_try e w question prompt
      in case r of
           Returned result \<Rightarrow> (result, w')
         | Raised ex \<Rightarrow> (except_result ''MedicalQA'' ex, w'))"

section \<open>The coordinator and its session memory\<close>

text \<open>
  \<^verbatim>\<open>CoordinationAgent.session_memory\<close> is a dictionary from session identifiers
  to session dictionaries. Only \<^verbatim>\<open>create_session\<close> stores a value there, always
  with the three keys \<^verbatim>\<open>user_id\<close>, \<^verbatim>\<open>created_at\<close> and
  \<^verbatim>\<open>interactions\<close>, so a stored session is a record of these three fields;
  \<open>session_dict\<close> is the dictionary a caller of \<^verbatim>\<open>get_session_summary\<close> sees.
  The source stores and returns references to its dictionaries; no method changes a
  dictionary after it has been appended to a session, so the methods are modelled on
  values. What a caller does with a returned reference is outside the methods.
\<close>

record session =
  user_id :: string
  created_at :: string
  interactions :: "pyval list"

type_synonym memory = "string \<rightharpoonup> session"

definition session_dict :: "session \<Rightarrow> dict" where
  "session_dict r =
     [(''user_id'', PStr (user_id r)),
      (''created_at'', PStr (created_at r)),
      (''interactions'', PList (interactions r))]"

text \<open>
  \<^verbatim>\<open>CoordinationAgent.create_session\<close>: the clock is read once for the identifier
  and once more for \<^verbatim>\<open>created_at\<close>; the assignment
  \<^verbatim>\<open>self.session_memory[session_id] = {...}\<close> replaces whatever was stored under
  that identifier.
\<close>

definition create_session :: "env \<Rightarrow> memory \<Rightarrow> world \<Rightarrow> string \<Rightarrow> string \<times> memory \<times> world" where
  "create_session e mem w uid =
     (let (t1, w1) = datetime_now e w;
          session_id = ''session_'' @ uid @ ''_'' @ timestamp e t1;
          (t2, w2) = datetime_now e w1;
          mem' = mem(session_id \<mapsto>
                   \<lparr>user_id = uid, created_at = isoformat e t2, interactions = []\<rparr>)
      in (session_id, mem', w2))"

text \<open>
  The dictionary \<^verbatim>\<open>workflow_result\<close> of \<^verbatim>\<open>process_health_check\<close>, with the
  list that has been accumulated under \<^verbatim>\<open>'steps'\<close>.
\<close>

definition workflow_result :: "string \<Rightarrow> string \<Rightarrow> pyval list \<Rightarrow> dict" where
  "workflow_result session_id ts steps =
     [(''session_id'', PStr session_id),
      (''workflow'', PStr ''health_check''),
      (''timestamp'', PStr ts),
      (''steps'', PList steps)]"

text \<open>
  Both workflows end with the same guarded statement,
  \<^verbatim>\<open>if session_id in self.session_memory:
  self.session_memory[session_id]['interactions'].append(result)\<close>.
  \<open>append_step\<close> is that statement: it gives the value of the guard, which says
  whether the result was stored, and the session memory afterwards. The methods go on
  to their \<^verbatim>\<open>return\<close> whatever the guard was.
\<close>

definition append_step :: "memory \<Rightarrow> string \<Rightarrow> pyval \<Rightarrow> bool \<times> memory" where
  "append_step mem session_id result =
     (case mem session_id of
        Some r \<Rightarrow>
          (True, mem(session_id \<mapsto> r\<lparr>interactions := interactions r @ [result]\<rparr>))
      | None \<Rightarrow> (False, mem))"

text \<open>
  \<^verbatim>\<open>CoordinationAgent.process_health_check\<close>. An exception that leaves an advisor
  (raised while its prompt was rendered) leaves this method too, before anything is
  stored. The subscript \<^verbatim>\<open>health_analysis['status']\<close> raises \<^verbatim>\<open>KeyError\<close> on a
  dictionary without that key, also before anything is stored.
\<close>

definition process_health_check ::
  "env \<Rightarrow> memory \<Rightarrow> world \<Rightarrow> string \<Rightarrow> dict \<Rightarrow> dict \<Rightarrow> dict outcome \<times> memory \<times> world" where
  "process_health_check e mem w session_id user_data user_profile =
     (let (t, w1) = datetime_now e w;
          (analysis, w2) = analyze_health_data e w1 user_data
      in case analysis of
           Raised ex \<Rightarrow> (Raised ex, mem, w2)
         | Returned health_analysis \<Rightarrow>
             (let steps1 = [PDict health_analysis]
              in case map_of health_analysis ''status'' of
                   None \<Rightarrow> (Raised missing_status, mem, w2)
                 | Some status \<Rightarrow>
                     (let (steps, w3) =
                            (if status = PStr ''success''
                             then (let (r, w3) = generate_recommendations e w2 user_profile
                                                   health_analysis
                                   in case r of
                                        Raised ex \<Rightarrow> (Raised ex, w3)
                                      | Returned recommendations \<Rightarrow>
                                          (Returned (steps1 @ [PDict recommendations]), w3))
                             else (Returned steps1, w2))
                      in case steps of
                           Raised ex \<Rightarrow> (Raised ex, mem, w3)
                         | Returned steps2 \<Rightarrow>
                             (let result = workflow_result session_id (isoformat e t) steps2;
                                  (stored, mem') = append_step mem session_id (PDict result)
                              in (Returned result, mem', w3)))))"

text \<open>\<^verbatim>\<open>CoordinationAgent.handle_question\<close>\<close>

definition handle_question ::
  "env \<Rightarrow> memory \<Rightarrow> world \<Rightarrow> string \<Rightarrow> string \<Rightarrow> dict \<times> memory \<times> world" where
  "handle_question e mem w session_id question =
     (let (result, w1) = answer_question e w question;
          (stored, mem') = append_step mem session_id (PDict result)
      in (result, mem', w1))"

text \<open>
  \<^verbatim>\<open>CoordinationAgent.get_session_summary\<close>. It assigns nothing; the memory is
  returned with the result so that this can be stated.
\<close>

definition get_session_summary :: "memory \<Rightarrow> string \<Rightarrow> dict \<times> memory" where
  "get_session_summary mem session_id =
     (case mem session_id of
        Some r \<Rightarrow> (session_dict r, mem)
      | None \<Rightarrow> ([(''error'', PStr ''Session not found'')], mem))"

section \<open>The system facade\<close>

text \<open>\<^verbatim>\<open>TechHealthSystem\<close>: each method delegates to the coordinator.\<close>

definition start_wellness_session ::
  "env \<Rightarrow> memory \<Rightarrow> world \<Rightarrow> string \<Rightarrow> dict \<Rightarrow> string \<times> memory \<times> world" where
  "start_wellness_session e mem w uid user_profile = create_session e mem w uid"

definition perform_health_check ::
  "env \<Rightarrow> memory \<Rightarrow> world \<Rightarrow> string \<Rightarrow> dict \<Rightarrow> dict \<Rightarrow> dict outcome \<times> memory \<times> world" where
  "perform_health_check e mem w session_id health_data user_profile =
     process_health_check e mem w session_id health_data user_profile"

definition ask_medical_question ::
  "env \<Rightarrow> memory \<Rightarrow> world \<Rightarrow> string \<Rightarrow> string \<Rightarrow> dict \<times> memory \<times> world" where
  "ask_medical_question e mem w session_id question = handle_question e mem w session_id question"

definition get_session_history :: "memory \<Rightarrow> string \<Rightarrow> dict \<times> memory" where
  "get_session_history mem session_id = get_session_summary mem session_id"

section \<open>Notions used in the statements\<close>

text \<open>
  \<open>status_of\<close> reads the \<^verbatim>\<open>'status'\<close> entry of a result. \<open>model_fails e w prompt ex\<close>
  says that the model call made in world \<open>w\<close> fails with \<open>ex\<close>: the call itself raises,
  or reading \<^verbatim>\<open>.text\<close> of its response does. \<open>analysis_step\<close> is the call of the
  analysis advisor that \<^verbatim>\<open>process_health_check\<close> makes when started in world \<open>w\<close>:
  it runs after the clock read for the workflow's timestamp.
\<close>

definition status_of :: "dict \<Rightarrow> pyval option" where
  "status_of d = map_of d ''status''"

definition model_fails :: "env \<Rightarrow> world \<Rightarrow> string \<Rightarrow> exn \<Rightarrow> bool" where
  "model_fails e w prompt ex =
     (generate_content e (model_calls w) prompt = Raised ex
      \<or> generate_content e (model_calls w) prompt = Returned (Raised ex))"

definition analysis_step :: "env \<Rightarrow> world \<Rightarrow> dict \<Rightarrow> dict outcome \<times> world" where
  "analysis_step e w user_data = analyze_health_data e (snd (datetime_now e w)) user_data"

text \<open>
  The envelope of an advisor result as the source builds it: the agent's name and a
  status; with status success a timestamp string; otherwise status error, an error
  message string and no timestamp.
\<close>

definition is_str :: "pyval option \<Rightarrow> bool" where
  "is_str v = (case v of Some (PStr s) \<Rightarrow> True | _ \<Rightarrow> False)"

definition advisor_envelope :: "string \<Rightarrow> dict \<Rightarrow> bool" where
  "advisor_envelope name r =
     (map_of r ''agent'' = Some (PStr name)
      \<and> (if status_of r = Some (PStr ''success'')
         then is_str (map_of r ''timestamp'')
         else status_of r = Some (PStr ''error'')
              \<and> is_str (map_of r ''error'')
              \<and> map_of r ''timestamp'' = None))"

section \<open>Example inputs\<close>

text \<open>
  Concrete environments and stores on which the theorems are evaluated: a model that
  always answers, one that always raises, and a clock that returns the same reading
  at every read.
\<close>

definition example_str :: "pyval \<Rightarrow> string outcome" where
  "example_str v =
     Returned (if v = PInt 82 then ''82'' else if v = PInt 28 then ''28''
               else if v = PInt 6 then ''6'' else ''0'')"

definition example_env :: "(nat \<Rightarrow> datetime) \<Rightarrow> (nat \<Rightarrow> string \<Rightarrow> response outcome) \<Rightarrow> env" where
  "example_env clock model =
     \<lparr>now = clock,
      isoformat = (\<lambda>t. ''2025-11-30T10:00:0'' @ (if t = 0 then ''0'' else ''1'')),
      timestamp = (\<lambda>t. ''176449680'' @ (if t = 0 then ''0.0'' else ''1.0'')),
      generate_content = model,
      str_of = example_str\<rparr>"

definition env_ok :: env where
  "env_ok = example_env (\<lambda>n. n) (\<lambda>n prompt. Returned (Returned ''Risk level: Low''))"

definition env_quota :: env where
  "env_quota = example_env (\<lambda>n. n) (\<lambda>n prompt. Raised (Error ''quota exceeded''))"

definition env_stuck :: env where
  "env_stuck = example_env (\<lambda>n. 0) (\<lambda>n prompt. Raised (Error ''quota exceeded''))"

definition w0 :: world where
  "w0 = \<lparr>clock_reads = 0, model_calls = 0\<rparr>"

definition health_data0 :: dict where
  "health_data0 =
     [(''heart_rate'', PInt 82), (''blood_pressure'', PStr ''130/85''),
      (''sleep_hours'', PInt 6), (''activity_level'', PStr ''Moderate'')]"

definition profile0 :: dict where
  "profile0 =
     [(''age'', PInt 28), (''fitness_goal'', PStr ''Weight loss''),
      (''dietary_preferences'', PStr ''Vegetarian'')]"

definition session0 :: session where
  "session0 = \<lparr>user_id = ''u1'', created_at = ''2025-11-30T09:00:00'', interactions = []\<rparr>"

definition mem1 :: memory where
  "mem1 = [''s1'' \<mapsto> session0]"

definition mem2 :: memory where
  "mem2 = [''s1'' \<mapsto> session0, ''s2'' \<mapsto> session0\<lparr>user_id := ''u2''\<rparr>]"

text \<open>
  The prompts that the example inputs render to, and the results of the two advisor
  steps of a health check on them under the model that always answers.
\<close>

definition health_prompt0 :: string where
  "health_prompt0 =
     [CHR 0x0A]
     @ ln ''As a health monitoring AI, analyze the following health metrics:''
     @ ln ''''
     @ ln ''Heart Rate: 82 bpm''
     @ ln ''Blood Pressure: 130/85''
     @ ln ''Sleep Hours: 6''
     @ ln ''Activity Level: Moderate''
     @ ln ''''
     @ ln ''Provide:''
     @ ln ''1. Risk level (Low/Medium/High)''
     @ ln ''2. Key concerns if any''
     @ ln ''3. Suggested monitoring frequency''
     @ ln ''''
     @ ln ''Respond in JSON format.''
     @ indent"

definition analysis0 :: dict where
  "analysis0 =
     [(''agent'', PStr ''HealthMonitor''), (''timestamp'', PStr ''2025-11-30T10:00:01''),
      (''analysis'', PStr ''Risk level: Low''), (''status'', PStr ''success'')]"

definition recommendation_prompt0 :: string where
  "recommendation_prompt0 =
     [CHR 0x0A]
     @ ln ''Based on the user profile and health analysis, provide personalized recommendations:''
     @ ln ''''
     @ ln ''User Profile:''
     @ ln ''- Age: 28''
     @ ln ''- Fitness Goal: Weight loss''
     @ ln ''- Dietary Preferences: Vegetarian''
     @ ln ''''
     @ ln ''Health Analysis:''
     @ ln ''Risk level: Low''
     @ ln ''''
     @ ln ''Provide:''
     @ ln ''1. 3 actionable nutrition tips''
     @ ln ''2. 3 exercise recommendations''
     @ ln ''3. 2 lifestyle adjustments''
     @ ln ''''
     @ ln ''Make recommendations specific and achievable.''
     @ indent"

definition recommendations0 :: dict where
  "recommendations0 =
     [(''agent'', PStr ''RecommendationEngine''), (''timestamp'', PStr ''2025-11-30T10:00:01''),
      (''recommendations'', PStr ''Risk level: Low''), (''status'', PStr ''success'')]"

text \<open>
  An input whose rendering raises: Python refuses to convert an integer of more than
  4300 digits to a string, and \<open>10 ^ 4300\<close> has 4301. The environment raises the
  \<^verbatim>\<open>ValueError\<close> of that conversion for this value.
\<close>

definition huge_int :: int where
  "huge_int = 10 ^ 4300"

definition digit_limit_error :: exn where
  "digit_limit_error =
     Error (''Exceeds the limit (4300 digits) for integer string conversion; ''
            @ ''use sys.set_int_max_str_digits() to increase the limit'')"

definition env_digit_limit :: env where
  "env_digit_limit =
     env_ok\<lparr>str_of := (\<lambda>v. if v = PInt huge_int then Raised digit_limit_error
                           else example_str v)\<rparr>"

definition huge_data :: dict where
  "huge_data = [(''heart_rate'', PInt huge_int)]"

text \<open>
  Two scenarios under the clock that does not advance. In the first, a session is
  started for user \<^verbatim>\<open>u1\<close> and at once a second one for the same user. In the second,
  a session is started, a question is asked in it (the model call raises at once, so no
  clock read happens in between), and then a session is started again for the same user.
\<close>

definition first_start :: "string \<times> memory \<times> world" where
  "first_start = start_wellness_session env_stuck Map.empty w0 ''u1'' profile0"

definition rapid_second_start :: "string \<times> memory \<times> world" where
  "rapid_second_start =
     start_wellness_session env_stuck (fst (snd first_start)) (snd (snd first_start)) ''u1'' profile0"

definition asked :: "dict \<times> memory \<times> world" where
  "asked =
     ask_medical_question env_stuck (fst (snd first_start)) (snd (snd first_start))
       (fst first_start) ''Is tea healthy?''"

definition restarted :: "string \<times> memory \<times> world" where
  "restarted = start_wellness_session env_stuck (fst (snd asked)) (snd (snd asked)) ''u1'' profile0"

section \<open>Facts about the advisors\<close>

lemmas advisor_defs =
  analyze_health_data_try_def generate_recommendations_try_def
  answer_question_def answer_question_try_def
  model_generate_def datetime_now_def

lemmas example_defs =
  example_env_def env_ok_def env_quota_def env_stuck_def w0_def health_data0_def
  profile0_def session0_def mem1_def mem2_def

lemma analyze_health_data_raises:
  "health_prompt e d = Raised ex \<Longrightarrow> analyze_health_data e w d = (Raised ex, w)"
  by (simp add: analyze_health_data_def)

lemma generate_recommendations_raises:
  "recommendation_prompt e p h = Raised ex \<Longrightarrow> generate_recommendations e w p h = (Raised ex, w)"
  by (simp add: generate_recommendations_def)

lemma analyze_health_data_rendered:
  assumes "health_prompt e d = Returned prompt"
  shows "(\<exists>ex. fst (analyze_health_data e w d) = Returned (except_result ''HealthMonitor'' ex))
   \<or> (\<exists>ts body. fst (analyze_health_data e w d) =
         Returned [(''agent'', PStr ''HealthMonitor''), (''timestamp'', PStr ts),
                   (''analysis'', PStr body), (''status'', PStr ''success'')])"
  using assms
  by (auto simp: analyze_health_data_def advisor_defs Let_def split: outcome.splits prod.splits)

lemma generate_recommendations_rendered:
  assumes "recommendation_prompt e p h = Returned prompt"
  shows "(\<exists>ex. fst (generate_recommendations e w p h)
            = Returned (except_result ''RecommendationEngine'' ex))
   \<or> (\<exists>ts body. fst (generate_recommendations e w p h) =
         Returned [(''agent'', PStr ''RecommendationEngine''), (''timestamp'', PStr ts),
                   (''recommendations'', PStr body), (''status'', PStr ''success'')])"
  using assms
  by (auto simp: generate_recommendations_def advisor_defs Let_def
        split: outcome.splits prod.splits)

lemma analyze_health_data_shape:
  assumes "fst (analyze_health_data e w d) = Returned r"
  shows "(\<exists>ex. r = except_result ''HealthMonitor'' ex)
   \<or> (\<exists>ts body. r = [(''agent'', PStr ''HealthMonitor''), (''timestamp'', PStr ts),
                       (''analysis'', PStr body), (''status'', PStr ''success'')])"
proof (cases "health_prompt e d")
  case (Raised ex)
  with assms show ?thesis by (simp add: analyze_health_data_raises)
next
  case (Returned prompt)
  from analyze_health_data_rendered [OF Returned, of w] assms show ?thesis by auto
qed

lemma generate_recommendations_shape:
  assumes "fst (generate_recommendations e w p h) = Returned r"
  shows "(\<exists>ex. r = except_result ''RecommendationEngine'' ex)
   \<or> (\<exists>ts body. r = [(''agent'', PStr ''RecommendationEngine''), (''timestamp'', PStr ts),
                       (''recommendations'', PStr body), (''status'', PStr ''success'')])"
proof (cases "recommendation_prompt e p h")
  case (Raised ex)
  with assms show ?thesis by (simp add: generate_recommendations_raises)
next
  case (Returned prompt)
  from generate_recommendations_rendered [OF Returned, of w] assms show ?thesis by auto
qed

lemma answer_question_shape:
  "(\<exists>ex. fst (answer_question e w q) = except_result ''MedicalQA'' ex)
   \<or> (\<exists>ts body. fst (answer_question e w q) =
         [(''agent'', PStr ''MedicalQA''), (''timestamp'', PStr ts),
          (''question'', PStr q), (''answer'', PStr body), (''status'', PStr ''success'')])"
  by (auto simp: advisor_defs Let_def split: outcome.splits prod.splits)

lemma analyze_health_data_fails:
  "health_prompt e d = Returned prompt \<Longrightarrow> model_fails e w prompt ex \<Longrightarrow>
   fst (analyze_health_data e w d) = Returned (except_result ''HealthMonitor'' ex)"
  by (auto simp: model_fails_def analyze_health_data_def advisor_defs Let_def
        split: outcome.splits prod.splits)

lemma generate_recommendations_fails:
  "recommendation_prompt e p h = Returned prompt \<Longrightarrow> model_fails e w prompt ex \<Longrightarrow>
   fst (generate_recommendations e w p h) = Returned (except_result ''RecommendationEngine'' ex)"
  by (auto simp: model_fails_def generate_recommendations_def advisor_defs Let_def
        split: outcome.splits prod.splits)

lemma answer_question_fails:
  "model_fails e w (question_prompt q) ex \<Longrightarrow>
   fst (answer_question e w q) = except_result ''MedicalQA'' ex"
  by (auto simp: model_fails_def advisor_defs Let_def split: outcome.splits prod.splits)

text \<open>
  An advisor call that returns a result has made exactly one model call; one that
  raises has left the world as it was.
\<close>

lemma analyze_health_data_calls:
  "fst (analyze_health_data e w d) = Returned r \<Longrightarrow>
   model_calls (snd (analyze_health_data e w d)) = Suc (model_calls w)"
  by (auto simp: analyze_health_data_def advisor_defs Let_def split: outcome.splits prod.splits)

lemma generate_recommendations_calls:
  "fst (generate_recommendations e w p h) = Returned r \<Longrightarrow>
   model_calls (snd (generate_recommendations e w p h)) = Suc (model_calls w)"
  by (auto simp: generate_recommendations_def advisor_defs Let_def
        split: outcome.splits prod.splits)

lemma generate_recommendations_raised:
  "fst (generate_recommendations e w p h) = Raised ex \<Longrightarrow>
   generate_recommendations e w p h = (Raised ex, w)"
  by (auto simp: generate_recommendations_def advisor_defs Let_def
        split: outcome.splits prod.splits)

lemma except_result_fields:
  "map_of (except_result name ex) ''agent'' = Some (PStr name)"
  "status_of (except_result name ex) = Some (PStr ''error'')"
  "map_of (except_result name ex) ''error'' = Some (PStr (str_exn ex))"
  "map_of (except_result name ex) ''timestamp'' = None"
  "map_of (except_result name ex) ''question'' = None"
  by (simp_all add: except_result_def status_of_def)

lemma analyze_health_data_status:
  assumes "fst (analyze_health_data e w d) = Returned r"
  shows "status_of r = Some (PStr ''success'') \<or> status_of r = Some (PStr ''error'')"
  using analyze_health_data_shape [OF assms]
  by (auto simp: status_of_def except_result_def)

lemma generate_recommendations_status:
  assumes "fst (generate_recommendations e w p h) = Returned r"
  shows "status_of r = Some (PStr ''success'') \<or> status_of r = Some (PStr ''error'')"
  using generate_recommendations_shape [OF assms]
  by (auto simp: status_of_def except_result_def)

lemma answer_question_status:
  "status_of (fst (answer_question e w q)) = Some (PStr ''success'')
   \<or> status_of (fst (answer_question e w q)) = Some (PStr ''error'')"
  using answer_question_shape [of e w q]
  by (auto simp: status_of_def except_result_def)

lemma except_result_envelope:
  "advisor_envelope name (except_result name ex)"
  by (simp add: advisor_envelope_def is_str_def status_of_def except_result_def)

lemma analyze_health_data_envelope:
  assumes "fst (analyze_health_data e w d) = Returned r"
  shows "advisor_envelope ''HealthMonitor'' r"
proof -
  from analyze_health_data_shape [OF assms] show ?thesis
  proof (elim disjE exE)
    fix ex assume "r = except_result ''HealthMonitor'' ex"
    then show ?thesis by (simp only: except_result_envelope)
  next
    fix ts body
    assume "r = [(''agent'', PStr ''HealthMonitor''), (''timestamp'', PStr ts),
                 (''analysis'', PStr body), (''status'', PStr ''success'')]"
    then show ?thesis by (simp add: advisor_envelope_def is_str_def status_of_def)
  qed
qed

lemma generate_recommendations_envelope:
  assumes "fst (generate_recommendations e w p h) = Returned r"
  shows "advisor_envelope ''RecommendationEngine'' r"
proof -
  from generate_recommendations_shape [OF assms] show ?thesis
  proof (elim disjE exE)
    fix ex assume "r = except_result ''RecommendationEngine'' ex"
    then show ?thesis by (simp only: except_result_envelope)
  next
    fix ts body
    assume "r = [(''agent'', PStr ''RecommendationEngine''), (''timestamp'', PStr ts),
                 (''recommendations'', PStr body), (''status'', PStr ''success'')]"
    then show ?thesis by (simp add: advisor_envelope_def is_str_def status_of_def)
  qed
qed

lemma answer_question_envelope:
  "advisor_envelope ''MedicalQA'' (fst (answer_question e w q))"
proof -
  from answer_question_shape [of e w q] show ?thesis
  proof (elim disjE exE)
    fix ex assume "fst (answer_question e w q) = except_result ''MedicalQA'' ex"
    then show ?thesis by (simp only: except_result_envelope)
  next
    fix ts body
    assume "fst (answer_question e w q) =
      [(''agent'', PStr ''MedicalQA''), (''timestamp'', PStr ts),
       (''question'', PStr q), (''answer'', PStr body), (''status'', PStr ''success'')]"
    then show ?thesis by (simp add: advisor_envelope_def is_str_def status_of_def)
  qed
qed

text \<open>The example inputs render to the example prompts.\<close>

lemma health_prompt0:
  "str_of e = example_str \<Longrightarrow> health_prompt e health_data0 = Returned health_prompt0"
  by (simp add: health_prompt_def health_prompt0_def fmt_def dict_get_def health_data0_def
        example_str_def ln_def indent_def)

lemma recommendation_prompt0:
  "str_of e = example_str \<Longrightarrow>
   recommendation_prompt e profile0 analysis0 = Returned recommendation_prompt0"
  by (simp add: recommendation_prompt_def recommendation_prompt0_def fmt_def dict_get_def
        profile0_def analysis0_def example_str_def ln_def indent_def)

lemma example_str_of:
  "str_of env_ok = example_str" "str_of env_quota = example_str" "str_of env_stuck = example_str"
  by (simp_all add: env_ok_def env_quota_def env_stuck_def example_env_def)

section \<open>Facts about the coordinator\<close>

lemma append_step_unknown:
  "mem sid = None \<Longrightarrow> append_step mem sid x = (False, mem)"
  by (simp add: append_step_def)

lemma append_step_known:
  "mem sid = Some r \<Longrightarrow>
   append_step mem sid x = (True, mem(sid \<mapsto> r\<lparr>interactions := interactions r @ [x]\<rparr>))"
  by (simp add: append_step_def)

lemma append_step_frame:
  "s \<noteq> sid \<Longrightarrow> snd (append_step mem sid x) s = mem s"
  by (simp add: append_step_def split: option.splits)

text \<open>
  The four ways through \<^verbatim>\<open>process_health_check\<close>. A result of the analysis advisor
  always has a status, so the \<^verbatim>\<open>KeyError\<close> branch is never taken.
\<close>

lemma process_health_check_analysis_raised:
  assumes "fst (analysis_step e w d) = Raised ex"
  shows "process_health_check e mem w sid d p = (Raised ex, mem, snd (analysis_step e w d))"
  using assms
  by (simp add: process_health_check_def analysis_step_def datetime_now_def Let_def
        case_prod_beta)

lemma process_health_check_error:
  assumes "fst (analysis_step e w d) = Returned ha"
    and "status_of ha \<noteq> Some (PStr ''success'')"
  shows "process_health_check e mem w sid d p =
           (Returned (workflow_result sid (isoformat e (now e (clock_reads w))) [PDict ha]),
            snd (append_step mem sid
                   (PDict (workflow_result sid (isoformat e (now e (clock_reads w))) [PDict ha]))),
            snd (analysis_step e w d))"
proof -
  from assms(1) have "status_of ha = Some (PStr ''success'') \<or> status_of ha = Some (PStr ''error'')"
    unfolding analysis_step_def by (rule analyze_health_data_status)
  with assms(2) have "map_of ha ''status'' = Some (PStr ''error'')"
    by (simp add: status_of_def)
  with assms(1) show ?thesis
    by (simp add: process_health_check_def analysis_step_def datetime_now_def Let_def
          case_prod_beta)
qed

lemma process_health_check_success:
  assumes "fst (analysis_step e w d) = Returned ha"
    and "status_of ha = Some (PStr ''success'')"
    and "fst (generate_recommendations e (snd (analysis_step e w d)) p ha) = Returned rc"
  shows "process_health_check e mem w sid d p =
           (Returned (workflow_result sid (isoformat e (now e (clock_reads w)))
                        [PDict ha, PDict rc]),
            snd (append_step mem sid
                   (PDict (workflow_result sid (isoformat e (now e (clock_reads w)))
                             [PDict ha, PDict rc]))),
            snd (generate_recommendations e (snd (analysis_step e w d)) p ha))"
  using assms
  by (simp add: process_health_check_def analysis_step_def datetime_now_def status_of_def Let_def
        case_prod_beta)

lemma process_health_check_recommendation_raised:
  assumes "fst (analysis_step e w d) = Returned ha"
    and "status_of ha = Some (PStr ''success'')"
    and "fst (generate_recommendations e (snd (analysis_step e w d)) p ha) = Raised ex"
  shows "process_health_check e mem w sid d p =
           (Raised ex, mem, snd (generate_recommendations e (snd (analysis_step e w d)) p ha))"
  using assms
  by (simp add: process_health_check_def analysis_step_def datetime_now_def status_of_def Let_def
        case_prod_beta)

text \<open>
  In each of them the store is either left as it was or changed by the append step
  alone, and neither the outcome nor the world depends on the store.
\<close>

lemma process_health_check_store:
  "fst (snd (process_health_check e mem w sid d p)) = mem
   \<or> (\<exists>x. fst (snd (process_health_check e mem w sid d p)) = snd (append_step mem sid x))"
proof (cases "fst (analysis_step e w d)")
  case (Raised ex)
  then show ?thesis by (simp add: process_health_check_analysis_raised)
next
  case (Returned ha)
  show ?thesis
  proof (cases "status_of ha = Some (PStr ''success'')")
    case False
    with Returned show ?thesis by (auto simp: process_health_check_error)
  next
    case True
    show ?thesis
    proof (cases "fst (generate_recommendations e (snd (analysis_step e w d)) p ha)")
      case (Raised ex)
      with Returned True show ?thesis
        by (simp add: process_health_check_recommendation_raised)
    next
      case (Returned rc)
      with \<open>fst (analysis_step e w d) = Returned ha\<close> True show ?thesis
        by (auto simp: process_health_check_success)
    qed
  qed
qed

lemma process_health_check_outcome:
  "fst (process_health_check e mem w sid d p) = fst (process_health_check e other w sid d p)"
proof (cases "fst (analysis_step e w d)")
  case (Raised ex)
  then show ?thesis by (simp add: process_health_check_analysis_raised)
next
  case (Returned ha)
  show ?thesis
  proof (cases "status_of ha = Some (PStr ''success'')")
    case False
    with Returned show ?thesis by (simp add: process_health_check_error)
  next
    case True
    show ?thesis
    proof (cases "fst (generate_recommendations e (snd (analysis_step e w d)) p ha)")
      case (Raised ex)
      with Returned True show ?thesis
        by (simp add: process_health_check_recommendation_raised)
    next
      case (Returned rc)
      with \<open>fst (analysis_step e w d) = Returned ha\<close> True show ?thesis
        by (simp add: process_health_check_success)
    qed
  qed
qed

lemma handle_question_unfold:
  "handle_question e mem w sid q =
     (fst (answer_question e w q),
      snd (append_step mem sid (PDict (fst (answer_question e w q)))),
      snd (answer_question e w q))"
  by (simp add: handle_question_def Let_def case_prod_beta)

text \<open>
  \<^verbatim>\<open>create_session\<close> stores a session with no interactions and leaves the sessions
  under other identifiers alone; the two workflows only ever extend an interaction
  sequence at its end. Two calls of \<^verbatim>\<open>create_session\<close> for one user return the
  same identifier as soon as the clock gives the second call the reading it gave the
  first.
\<close>

lemma create_session_fresh:
  "fst (snd (create_session e mem w uid)) (fst (create_session e mem w uid)) =
     Some \<lparr>user_id = uid, created_at = isoformat e (now e (Suc (clock_reads w))),
            interactions = []\<rparr>"
  by (simp add: create_session_def datetime_now_def Let_def)

lemma create_session_frame:
  "s \<noteq> fst (create_session e mem w uid) \<Longrightarrow>
   fst (snd (create_session e mem w uid)) s = mem s"
  by (simp add: create_session_def datetime_now_def Let_def)

lemma create_session_same_reading:
  assumes "now e (Suc (Suc (clock_reads w))) = now e (clock_reads w)"
  shows "fst (create_session e (fst (snd (create_session e mem w uid)))
                (snd (snd (create_session e mem w uid))) uid)
         = fst (create_session e mem w uid)"
  using assms
  by (simp add: create_session_def datetime_now_def Let_def)

lemma append_step_extends:
  assumes "mem s = Some r"
  shows "\<exists>r' new. snd (append_step mem sid x) s = Some r'
           \<and> interactions r' = interactions r @ new"
  using assms
  by (cases "s = sid") (auto simp: append_step_def split: option.splits)

lemma process_health_check_extends:
  assumes "mem s = Some r"
  shows "\<exists>r' new. fst (snd (process_health_check e mem w sid d p)) s = Some r'
           \<and> interactions r' = interactions r @ new"
proof -
  from process_health_check_store [of e mem w sid d p] show ?thesis
  proof (elim disjE exE)
    assume "fst (snd (process_health_check e mem w sid d p)) = mem"
    with assms show ?thesis by simp
  next
    fix x
    assume "fst (snd (process_health_check e mem w sid d p)) = snd (append_step mem sid x)"
    with append_step_extends [where mem = mem and s = s and r = r and sid = sid and x = x] assms
    show ?thesis by simp
  qed
qed

lemma handle_question_extends:
  assumes "mem s = Some r"
  shows "\<exists>r' new. fst (snd (handle_question e mem w sid q)) s = Some r'
           \<and> interactions r' = interactions r @ new"
  using append_step_extends
          [where mem = mem and s = s and r = r and sid = sid
             and x = "PDict (fst (answer_question e w q))"] assms
  by (simp add: handle_question_unfold)

lemma first_start_value:
  "first_start =
     (''session_u1_1764496800.0'',
      [''session_u1_1764496800.0'' \<mapsto>
         \<lparr>user_id = ''u1'', created_at = ''2025-11-30T10:00:00'', interactions = []\<rparr>],
      \<lparr>clock_reads = 2, model_calls = 0\<rparr>)"
  by (simp add: first_start_def start_wellness_session_def create_session_def datetime_now_def
        env_stuck_def example_env_def w0_def Let_def numeral_2_eq_2)

lemma asked_memory:
  "fst (snd asked) ''session_u1_1764496800.0'' =
     Some \<lparr>user_id = ''u1'', created_at = ''2025-11-30T10:00:00'',
            interactions = [PDict [(''agent'', PStr ''MedicalQA''), (''status'', PStr ''error''),
                                   (''error'', PStr ''quota exceeded'')]]\<rparr>"
  by (simp add: asked_def first_start_value ask_medical_question_def handle_question_unfold
        append_step_def advisor_defs except_result_def env_stuck_def example_env_def Let_def)

text \<open>The two advisor steps of a health check on the example inputs.\<close>

lemma analysis_step0:
  "analysis_step env_ok w0 health_data0 = (Returned analysis0, \<lparr>clock_reads = 2, model_calls = 1\<rparr>)"
  by (simp add: analysis_step_def analyze_health_data_def health_prompt0 example_str_of
        advisor_defs analysis0_def env_ok_def example_env_def w0_def Let_def numeral_2_eq_2)

lemma recommendation_step0:
  "generate_recommendations env_ok \<lparr>clock_reads = 2, model_calls = 1\<rparr> profile0 analysis0 =
     (Returned recommendations0, \<lparr>clock_reads = 3, model_calls = 2\<rparr>)"
  by (simp add: generate_recommendations_def recommendation_prompt0 example_str_of
        advisor_defs recommendations0_def env_ok_def example_env_def Let_def numeral_2_eq_2
        numeral_3_eq_3)

lemma analysis_step_quota:
  "analysis_step env_quota w0 health_data0 =
     (Returned [(''agent'', PStr ''HealthMonitor''), (''status'', PStr ''error''),
                (''error'', PStr ''quota exceeded'')],
      \<lparr>clock_reads = 1, model_calls = 1\<rparr>)"
  by (simp add: analysis_step_def analyze_health_data_def health_prompt0 example_str_of
        advisor_defs except_result_def env_quota_def example_env_def w0_def Let_def)

section \<open>Verified properties\<close>

text \<open>
  C1. For a session that is in the store: if both steps of the health check return
  status success, the returned workflow result holds exactly two steps, the analysis
  result and then the recommendation result, and the session history read afterwards
  ends with that workflow result.
\<close>

theorem health_check_success_recorded:
  assumes "mem sid = Some r"
    and "analysis_step e w d = (Returned ha, w2)"
    and "status_of ha = Some (PStr ''success'')"
    and "generate_recommendations e w2 p ha = (Returned rc, w3)"
    and "status_of rc = Some (PStr ''success'')"
  shows "\<exists>wr. fst (perform_health_check e mem w sid d p) = Returned wr
           \<and> map_of wr ''steps'' = Some (PList [PDict ha, PDict rc])
           \<and> map_of (fst (get_session_history (fst (snd (perform_health_check e mem w sid d p))) sid))
                ''interactions''
               = Some (PList (interactions r @ [PDict wr]))"
proof -
  from assms(2) have a: "fst (analysis_step e w d) = Returned ha"
    and w2: "snd (analysis_step e w d) = w2"
    by simp_all
  from assms(4) w2
  have b: "fst (generate_recommendations e (snd (analysis_step e w d)) p ha) = Returned rc"
    by simp
  from process_health_check_success [OF a assms(3) b] assms(1) show ?thesis
    by (simp add: perform_health_check_def append_step_known get_session_history_def
          get_session_summary_def session_dict_def workflow_result_def)
qed

text \<open>C1 at a concrete input: the model answers both calls, session \<^verbatim>\<open>s1\<close> exists.\<close>

theorem health_check_success_recorded_witness:
  "mem1 ''s1'' = Some session0
   \<and> analysis_step env_ok w0 health_data0
       = (Returned analysis0, \<lparr>clock_reads = 2, model_calls = 1\<rparr>)
   \<and> status_of analysis0 = Some (PStr ''success'')
   \<and> generate_recommendations env_ok \<lparr>clock_reads = 2, model_calls = 1\<rparr> profile0 analysis0
       = (Returned recommendations0, \<lparr>clock_reads = 3, model_calls = 2\<rparr>)
   \<and> status_of recommendations0 = Some (PStr ''success'')
   \<and> (\<exists>wr. fst (perform_health_check env_ok mem1 w0 ''s1'' health_data0 profile0) = Returned wr
         \<and> map_of wr ''steps'' = Some (PList [PDict analysis0, PDict recommendations0])
         \<and> map_of (fst (get_session_history
                           (fst (snd (perform_health_check env_ok mem1 w0 ''s1'' health_data0 profile0)))
                           ''s1'')) ''interactions''
             = Some (PList (interactions session0 @ [PDict wr])))"
proof -
  have h1: "mem1 ''s1'' = Some session0"
    by (simp add: mem1_def)
  have h3: "status_of analysis0 = Some (PStr ''success'')"
    by (simp add: status_of_def analysis0_def)
  have h5: "status_of recommendations0 = Some (PStr ''success'')"
    by (simp add: status_of_def recommendations0_def)
  from health_check_success_recorded
         [where mem = mem1 and sid = "''s1''" and r = session0,
          OF h1 analysis_step0 h3 recommendation_step0 h5]
       h1 analysis_step0 h3 recommendation_step0 h5
  show ?thesis by blast
qed

text \<open>
  C2. If the analysis step returns status error, the recommendation advisor is not
  called: the health check returns its workflow result and the world afterwards is
  the world the analysis left, with exactly one model call made. (A call of the
  recommendation advisor either returns after one more model call, see
  \<open>generate_recommendations_calls\<close>, or raises, and then the health check raises too.)
  The returned workflow result holds exactly one step, the analysis result, and it is
  appended to the history of the session when the session exists.
\<close>

theorem health_check_analysis_error:
  assumes "fst (analysis_step e w d) = Returned ha"
    and "status_of ha = Some (PStr ''error'')"
  shows "snd (snd (perform_health_check e mem w sid d p)) = snd (analysis_step e w d)
         \<and> model_calls (snd (snd (perform_health_check e mem w sid d p))) = Suc (model_calls w)
         \<and> (\<exists>wr. fst (perform_health_check e mem w sid d p) = Returned wr
              \<and> map_of wr ''steps'' = Some (PList [PDict ha])
              \<and> (\<forall>r. mem sid = Some r \<longrightarrow>
                    fst (snd (perform_health_check e mem w sid d p)) sid
                      = Some (r\<lparr>interactions := interactions r @ [PDict wr]\<rparr>)))"
proof -
  from assms(2) have ns: "status_of ha \<noteq> Some (PStr ''success'')"
    by simp
  from assms(1)
  have calls: "model_calls (snd (analysis_step e w d)) = Suc (model_calls w)"
    unfolding analysis_step_def
    by (simp add: analyze_health_data_calls datetime_now_def)
  from process_health_check_error [OF assms(1) ns] calls show ?thesis
    by (simp add: perform_health_check_def append_step_known workflow_result_def)
qed

text \<open>C2 at a concrete input: the model raises at every call, session \<^verbatim>\<open>s1\<close> exists.\<close>

theorem health_check_analysis_error_witness:
  "fst (analysis_step env_quota w0 health_data0)
     = Returned [(''agent'', PStr ''HealthMonitor''), (''status'', PStr ''error''),
                 (''error'', PStr ''quota exceeded'')]
   \<and> status_of [(''agent'', PStr ''HealthMonitor''), (''status'', PStr ''error''),
                 (''error'', PStr ''quota exceeded'')] = Some (PStr ''error'')
   \<and> snd (snd (perform_health_check env_quota mem1 w0 ''s1'' health_data0 profile0))
       = snd (analysis_step env_quota w0 health_data0)
   \<and> model_calls (snd (snd (perform_health_check env_quota mem1 w0 ''s1'' health_data0 profile0)))
       = Suc (model_calls w0)
   \<and> (\<exists>wr. fst (perform_health_check env_quota mem1 w0 ''s1'' health_data0 profile0) = Returned wr
         \<and> map_of wr ''steps'' =
             Some (PList [PDict [(''agent'', PStr ''HealthMonitor''), (''status'', PStr ''error''),
                                 (''error'', PStr ''quota exceeded'')]])
         \<and> fst (snd (perform_health_check env_quota mem1 w0 ''s1'' health_data0 profile0)) ''s1''
             = Some (session0\<lparr>interactions := interactions session0 @ [PDict wr]\<rparr>))"
proof -
  have h1: "fst (analysis_step env_quota w0 health_data0)
              = Returned [(''agent'', PStr ''HealthMonitor''), (''status'', PStr ''error''),
                          (''error'', PStr ''quota exceeded'')]"
    by (simp add: analysis_step_quota)
  have h2: "status_of [(''agent'', PStr ''HealthMonitor''), (''status'', PStr ''error''),
                       (''error'', PStr ''quota exceeded'')] = Some (PStr ''error'')"
    by (simp add: status_of_def)
  have m: "mem1 ''s1'' = Some session0"
    by (simp add: mem1_def)
  from health_check_analysis_error
         [where mem = mem1 and sid = "''s1''" and p = profile0, OF h1 h2]
       h1 h2 m
  show ?thesis by blast
qed

text \<open>
  C3, as amended. Every advisor operation turns a failure of the model call (the call
  raises, or reading the text of the response raises) into a returned result with
  status error that carries the text of the exception under \<^verbatim>\<open>'error'\<close>; the
  failure does not leave the advisor. The question advisor always returns a result,
  with status success or error. The analysis and the recommendation advisor return
  such a result whenever their prompt is rendered; an exception raised while the
  prompt is rendered from the input values, before the \<^verbatim>\<open>try\<close> block, leaves the
  advisor, with the world unchanged.
\<close>

theorem advisors_return_error_values:
  "(\<forall>prompt. health_prompt e d = Returned prompt \<longrightarrow>
      (\<exists>r. fst (analyze_health_data e w d) = Returned r
          \<and> status_of r \<in> {Some (PStr ''success''), Some (PStr ''error'')}
          \<and> (model_fails e w prompt ex \<longrightarrow>
                status_of r = Some (PStr ''error'')
                \<and> map_of r ''error'' = Some (PStr (str_exn ex)))))
   \<and> (\<forall>prompt. recommendation_prompt e p h = Returned prompt \<longrightarrow>
      (\<exists>r. fst (generate_recommendations e w p h) = Returned r
          \<and> status_of r \<in> {Some (PStr ''success''), Some (PStr ''error'')}
          \<and> (model_fails e w prompt ex \<longrightarrow>
                status_of r = Some (PStr ''error'')
                \<and> map_of r ''error'' = Some (PStr (str_exn ex)))))
   \<and> status_of (fst (answer_question e w q)) \<in> {Some (PStr ''success''), Some (PStr ''error'')}
   \<and> (model_fails e w (question_prompt q) ex \<longrightarrow>
        status_of (fst (answer_question e w q)) = Some (PStr ''error'')
        \<and> map_of (fst (answer_question e w q)) ''error'' = Some (PStr (str_exn ex)))
   \<and> (\<forall>ex'. health_prompt e d = Raised ex' \<longrightarrow> analyze_health_data e w d = (Raised ex', w))
   \<and> (\<forall>ex'. recommendation_prompt e p h = Raised ex' \<longrightarrow>
         generate_recommendations e w p h = (Raised ex', w))"
proof -
  have a: "\<exists>r. fst (analyze_health_data e w d) = Returned r
          \<and> status_of r \<in> {Some (PStr ''success''), Some (PStr ''error'')}
          \<and> (model_fails e w prompt ex \<longrightarrow>
                status_of r = Some (PStr ''error'')
                \<and> map_of r ''error'' = Some (PStr (str_exn ex)))"
    if r: "health_prompt e d = Returned prompt" for prompt
  proof -
    from analyze_health_data_rendered [OF r, of w]
    obtain res where res: "fst (analyze_health_data e w d) = Returned res"
      by blast
    from analyze_health_data_status [OF res] analyze_health_data_fails [OF r, of w ex] res
    show ?thesis by (auto simp: except_result_fields)
  qed
  have b: "\<exists>r. fst (generate_recommendations e w p h) = Returned r
          \<and> status_of r \<in> {Some (PStr ''success''), Some (PStr ''error'')}
          \<and> (model_fails e w prompt ex \<longrightarrow>
                status_of r = Some (PStr ''error'')
                \<and> map_of r ''error'' = Some (PStr (str_exn ex)))"
    if r: "recommendation_prompt e p h = Returned prompt" for prompt
  proof -
    from generate_recommendations_rendered [OF r, of w]
    obtain res where res: "fst (generate_recommendations e w p h) = Returned res"
      by blast
    from generate_recommendations_status [OF res] generate_recommendations_fails [OF r, of w ex] res
    show ?thesis by (auto simp: except_result_fields)
  qed
  have c: "status_of (fst (answer_question e w q))
             \<in> {Some (PStr ''success''), Some (PStr ''error'')}"
    using answer_question_status [of e w q] by auto
  have d: "model_fails e w (question_prompt q) ex \<longrightarrow>
        status_of (fst (answer_question e w q)) = Some (PStr ''error'')
        \<and> map_of (fst (answer_question e w q)) ''error'' = Some (PStr (str_exn ex))"
    by (simp add: answer_question_fails except_result_fields)
  from a b c d show ?thesis
    by (simp add: analyze_health_data_raises generate_recommendations_raises)
qed

text \<open>C3 as amended, at a concrete input: the model raises \<^verbatim>\<open>quota exceeded\<close> at every call.\<close>

theorem advisors_return_error_values_witness:
  "health_prompt env_quota health_data0 = Returned health_prompt0
   \<and> model_fails env_quota w0 health_prompt0 (Error ''quota exceeded'')
   \<and> recommendation_prompt env_quota profile0 analysis0 = Returned recommendation_prompt0
   \<and> model_fails env_quota w0 recommendation_prompt0 (Error ''quota exceeded'')
   \<and> model_fails env_quota w0 (question_prompt ''Is tea healthy?'') (Error ''quota exceeded'')
   \<and> (\<exists>r. fst (analyze_health_data env_quota w0 health_data0) = Returned r
         \<and> map_of r ''error'' = Some (PStr ''quota exceeded''))
   \<and> (\<exists>r. fst (generate_recommendations env_quota w0 profile0 analysis0) = Returned r
         \<and> map_of r ''error'' = Some (PStr ''quota exceeded''))
   \<and> map_of (fst (answer_question env_quota w0 ''Is tea healthy?'')) ''error''
       = Some (PStr ''quota exceeded'')"
proof -
  have f: "model_fails env_quota w0 prompt (Error ''quota exceeded'')" for prompt
    by (simp add: model_fails_def env_quota_def example_env_def)
  have h: "health_prompt env_quota health_data0 = Returned health_prompt0"
    by (simp add: health_prompt0 example_str_of)
  have r: "recommendation_prompt env_quota profile0 analysis0 = Returned recommendation_prompt0"
    by (simp add: recommendation_prompt0 example_str_of)
  from advisors_return_error_values
         [where e = env_quota and w = w0 and d = health_data0 and p = profile0 and h = analysis0
            and q = "''Is tea healthy?''" and ex = "Error ''quota exceeded''"]
       f h r
  show ?thesis by auto
qed

text \<open>
  C3 as stated fails: an advisor operation can raise. The heart rate is an integer
  of 4301 digits, rendering it for the prompt raises \<^verbatim>\<open>ValueError\<close> before the
  \<^verbatim>\<open>try\<close> block is entered, and the exception leaves
  \<^verbatim>\<open>analyze_health_data\<close>.
\<close>

theorem analysis_raises_while_rendering:
  "analyze_health_data env_digit_limit w0 huge_data = (Raised digit_limit_error, w0)"
  by (simp add: analyze_health_data_def health_prompt_def fmt_def dict_get_def huge_data_def
        env_digit_limit_def)

text \<open>
  C4. Session identifiers are meant to be distinct; the identifier is built from the
  user identifier and one clock reading only. When the clock returns the same reading
  to two calls of \<^verbatim>\<open>start_wellness_session\<close> for user \<^verbatim>\<open>u1\<close>, both calls return
  the same identifier.
\<close>

theorem session_identifiers_collide:
  "fst first_start = ''session_u1_1764496800.0''
   \<and> fst rapid_second_start = ''session_u1_1764496800.0''"
  by (simp add: rapid_second_start_def first_start_value start_wellness_session_def
        create_session_def datetime_now_def env_stuck_def example_env_def Let_def)

text \<open>
  C5. For a session identifier that is not in the store, the append step of both
  workflows gives the indication that nothing was stored (false), does not raise, and
  leaves the store unchanged. The enclosing workflow still returns its result: the
  health check leaves the store as it was and ends as it would on any other store, with
  its workflow result whenever its advisor steps have returned theirs; the question
  workflow returns the result of the question advisor.
\<close>

theorem unknown_session_append_skipped:
  assumes "mem sid = None"
  shows "append_step mem sid x = (False, mem)
         \<and> fst (snd (perform_health_check e mem w sid d p)) = mem
         \<and> fst (perform_health_check e mem w sid d p) = fst (perform_health_check e other w sid d p)
         \<and> (\<forall>ha. fst (analysis_step e w d) = Returned ha
                 \<and> status_of ha \<noteq> Some (PStr ''success'') \<longrightarrow>
               perform_health_check e mem w sid d p =
                 (Returned (workflow_result sid (isoformat e (now e (clock_reads w))) [PDict ha]),
                  mem, snd (analysis_step e w d)))
         \<and> (\<forall>ha rc. fst (analysis_step e w d) = Returned ha
                 \<and> status_of ha = Some (PStr ''success'')
                 \<and> fst (generate_recommendations e (snd (analysis_step e w d)) p ha) = Returned rc \<longrightarrow>
               perform_health_check e mem w sid d p =
                 (Returned (workflow_result sid (isoformat e (now e (clock_reads w)))
                              [PDict ha, PDict rc]),
                  mem, snd (generate_recommendations e (snd (analysis_step e w d)) p ha)))
         \<and> ask_medical_question e mem w sid q
             = (fst (answer_question e w q), mem, snd (answer_question e w q))"
proof -
  have skip: "append_step mem sid y = (False, mem)" for y
    using assms by (rule append_step_unknown)
  have store: "fst (snd (process_health_check e mem w sid d p)) = mem"
    using process_health_check_store [of e mem w sid d p] by (auto simp: skip)
  show ?thesis
    by (simp add: skip store perform_health_check_def ask_medical_question_def
          handle_question_unfold process_health_check_error process_health_check_success
          process_health_check_outcome [of e mem w sid d p other])
qed

text \<open>
  C5 at a concrete input: session \<^verbatim>\<open>s1\<close> in the empty store, against the store that
  holds it, under the model that always answers.
\<close>

theorem unknown_session_append_skipped_witness:
  "Map.empty ''s1'' = (None :: session option)
   \<and> append_step Map.empty ''s1'' (PDict analysis0) = (False, Map.empty)
   \<and> fst (analysis_step env_ok w0 health_data0) = Returned analysis0
   \<and> status_of analysis0 = Some (PStr ''success'')
   \<and> fst (generate_recommendations env_ok (snd (analysis_step env_ok w0 health_data0)) profile0
            analysis0) = Returned recommendations0
   \<and> perform_health_check env_ok Map.empty w0 ''s1'' health_data0 profile0 =
       (Returned (workflow_result ''s1'' ''2025-11-30T10:00:00''
                    [PDict analysis0, PDict recommendations0]),
        Map.empty, \<lparr>clock_reads = 3, model_calls = 2\<rparr>)
   \<and> fst (perform_health_check env_ok Map.empty w0 ''s1'' health_data0 profile0)
       = fst (perform_health_check env_ok mem1 w0 ''s1'' health_data0 profile0)
   \<and> ask_medical_question env_ok Map.empty w0 ''s1'' ''Is tea healthy?''
       = (fst (answer_question env_ok w0 ''Is tea healthy?''), Map.empty,
          snd (answer_question env_ok w0 ''Is tea healthy?''))"
proof -
  have h: "Map.empty ''s1'' = (None :: session option)"
    by simp
  have a: "fst (analysis_step env_ok w0 health_data0) = Returned analysis0"
    by (simp add: analysis_step0)
  have s: "status_of analysis0 = Some (PStr ''success'')"
    by (simp add: status_of_def analysis0_def)
  have r: "generate_recommendations env_ok (snd (analysis_step env_ok w0 health_data0)) profile0
             analysis0 = (Returned recommendations0, \<lparr>clock_reads = 3, model_calls = 2\<rparr>)"
    by (simp only: analysis_step0 snd_conv recommendation_step0)
  have t: "isoformat env_ok (now env_ok (clock_reads w0)) = ''2025-11-30T10:00:00''"
    by (simp add: env_ok_def example_env_def w0_def)
  from unknown_session_append_skipped
         [where mem = Map.empty and sid = "''s1''" and x = "PDict analysis0" and e = env_ok
            and w = w0 and d = health_data0 and p = profile0 and other = mem1
            and q = "''Is tea healthy?''", OF h]
       h a s r t
  show ?thesis by auto
qed

text \<open>
  C6. For a session identifier that is not in the store the history read returns the
  dictionary \<^verbatim>\<open>{'error': 'Session not found'}\<close> as a value; for one that is in the
  store it returns the full session record (user, creation time, interactions), which
  is never that error dictionary. In both cases the store is unchanged.
\<close>

theorem get_session_history_result:
  "(mem sid = None \<longrightarrow>
      get_session_history mem sid = ([(''error'', PStr ''Session not found'')], mem))
   \<and> (\<forall>r. mem sid = Some r \<longrightarrow>
         get_session_history mem sid = (session_dict r, mem)
         \<and> map_of (fst (get_session_history mem sid)) ''user_id'' = Some (PStr (user_id r))
         \<and> map_of (fst (get_session_history mem sid)) ''created_at'' = Some (PStr (created_at r))
         \<and> map_of (fst (get_session_history mem sid)) ''interactions''
             = Some (PList (interactions r))
         \<and> fst (get_session_history mem sid) \<noteq> [(''error'', PStr ''Session not found'')])"
  by (simp add: get_session_history_def get_session_summary_def session_dict_def)

text \<open>C6 at a concrete input: the store holding \<^verbatim>\<open>s1\<close> only, read at \<^verbatim>\<open>s2\<close> and \<^verbatim>\<open>s1\<close>.\<close>

theorem get_session_history_result_witness:
  "mem1 ''s2'' = None
   \<and> get_session_history mem1 ''s2'' = ([(''error'', PStr ''Session not found'')], mem1)
   \<and> mem1 ''s1'' = Some session0
   \<and> get_session_history mem1 ''s1'' = (session_dict session0, mem1)
   \<and> map_of (fst (get_session_history mem1 ''s1'')) ''interactions'' = Some (PList [])"
proof -
  have h1: "mem1 ''s2'' = None" and h2: "mem1 ''s1'' = Some session0"
    by (simp_all add: mem1_def)
  from get_session_history_result [of mem1 "''s2''"] get_session_history_result [of mem1 "''s1''"]
       h1 h2
  show ?thesis by (simp add: session_dict_def session0_def)
qed

text \<open>
  C7, as amended. For an existing session, the question workflow appends exactly one
  entry, its own result, at the end of the interaction sequence, whose length grows by
  one. A result with status success carries the question verbatim under
  \<^verbatim>\<open>'question'\<close>; a result with status error has no \<^verbatim>\<open>'question'\<close> entry.
\<close>

theorem question_appends_one_entry:
  assumes "mem sid = Some r"
    and "ask_medical_question e mem w sid q = (res, mem', w')"
  shows "mem' sid = Some (r\<lparr>interactions := interactions r @ [PDict res]\<rparr>)
         \<and> map_of (fst (get_session_history mem' sid)) ''interactions''
             = Some (PList (interactions r @ [PDict res]))
         \<and> length (interactions r @ [PDict res]) = Suc (length (interactions r))
         \<and> (status_of res = Some (PStr ''success'') \<longrightarrow>
               map_of res ''question'' = Some (PStr q))
         \<and> (status_of res = Some (PStr ''error'') \<longrightarrow> map_of res ''question'' = None)"
proof -
  from assms have res: "res = fst (answer_question e w q)"
    and mem': "mem' = mem(sid \<mapsto> r\<lparr>interactions := interactions r @ [PDict res]\<rparr>)"
    by (auto simp: ask_medical_question_def handle_question_unfold append_step_known)
  from answer_question_shape [of e w q]
  have "(status_of res = Some (PStr ''success'') \<longrightarrow> map_of res ''question'' = Some (PStr q))
        \<and> (status_of res = Some (PStr ''error'') \<longrightarrow> map_of res ''question'' = None)"
  proof (elim disjE exE)
    fix ex assume "fst (answer_question e w q) = except_result ''MedicalQA'' ex"
    then show ?thesis by (simp add: res status_of_def except_result_def)
  next
    fix ts body
    assume "fst (answer_question e w q) =
      [(''agent'', PStr ''MedicalQA''), (''timestamp'', PStr ts),
       (''question'', PStr q), (''answer'', PStr body), (''status'', PStr ''success'')]"
    then show ?thesis by (simp add: res status_of_def)
  qed
  with mem' show ?thesis
    by (simp add: get_session_history_def get_session_summary_def session_dict_def)
qed

text \<open>C7 as amended, at a concrete input: the model answers, session \<^verbatim>\<open>s1\<close> exists.\<close>

theorem question_appends_one_entry_witness:
  "mem1 ''s1'' = Some session0
   \<and> fst (snd (ask_medical_question env_ok mem1 w0 ''s1'' ''Is tea healthy?'')) ''s1''
       = Some (session0\<lparr>interactions :=
                 interactions session0
                 @ [PDict (fst (ask_medical_question env_ok mem1 w0 ''s1'' ''Is tea healthy?''))]\<rparr>)
   \<and> status_of (fst (ask_medical_question env_ok mem1 w0 ''s1'' ''Is tea healthy?''))
       = Some (PStr ''success'')
   \<and> map_of (fst (ask_medical_question env_ok mem1 w0 ''s1'' ''Is tea healthy?'')) ''question''
       = Some (PStr ''Is tea healthy?'')"
proof -
  have h: "mem1 ''s1'' = Some session0"
    by (simp add: mem1_def)
  have s: "status_of (fst (ask_medical_question env_ok mem1 w0 ''s1'' ''Is tea healthy?''))
             = Some (PStr ''success'')"
    by (simp add: ask_medical_question_def handle_question_unfold status_of_def advisor_defs
          env_ok_def example_env_def Let_def)
  have p: "ask_medical_question env_ok mem1 w0 ''s1'' ''Is tea healthy?'' =
             (fst (ask_medical_question env_ok mem1 w0 ''s1'' ''Is tea healthy?''),
              fst (snd (ask_medical_question env_ok mem1 w0 ''s1'' ''Is tea healthy?'')),
              snd (snd (ask_medical_question env_ok mem1 w0 ''s1'' ''Is tea healthy?'')))"
    by simp
  from question_appends_one_entry [OF h p] h s show ?thesis
    by blast
qed

text \<open>
  C7 as stated fails: when the model call raises, the entry appended for the question
  \<^verbatim>\<open>Is tea healthy?\<close> is the handler's dictionary of agent, status and error message;
  the question is not in it.
\<close>

theorem failed_question_entry_drops_question:
  "mem1 ''s1'' = Some session0
   \<and> fst (ask_medical_question env_quota mem1 w0 ''s1'' ''Is tea healthy?'') =
       [(''agent'', PStr ''MedicalQA''), (''status'', PStr ''error''),
        (''error'', PStr ''quota exceeded'')]
   \<and> fst (snd (ask_medical_question env_quota mem1 w0 ''s1'' ''Is tea healthy?'')) ''s1'' =
       Some (session0\<lparr>interactions :=
               [PDict [(''agent'', PStr ''MedicalQA''), (''status'', PStr ''error''),
                       (''error'', PStr ''quota exceeded'')]]\<rparr>)
   \<and> map_of (fst (ask_medical_question env_quota mem1 w0 ''s1'' ''Is tea healthy?'')) ''question''
       = None"
  by (simp add: mem1_def session0_def ask_medical_question_def handle_question_unfold
        append_step_def advisor_defs except_result_def env_quota_def example_env_def w0_def
        Let_def)

text \<open>
  C8, as amended. Every result of an advisor carries the name of the advisor that
  produced it and a status that is success or error. A result with status success
  carries a timestamp; a result with status error carries an error message and no
  timestamp.
\<close>

theorem advisor_results_envelope:
  "(\<forall>r. fst (analyze_health_data e w d) = Returned r \<longrightarrow> advisor_envelope ''HealthMonitor'' r)
   \<and> (\<forall>r. fst (generate_recommendations e w p h) = Returned r \<longrightarrow>
         advisor_envelope ''RecommendationEngine'' r)
   \<and> advisor_envelope ''MedicalQA'' (fst (answer_question e w q))"
  by (simp add: analyze_health_data_envelope generate_recommendations_envelope
        answer_question_envelope)

text \<open>C8 as amended, at concrete inputs: a successful analysis and a failed question.\<close>

theorem advisor_results_envelope_witness:
  "fst (analyze_health_data env_ok (snd (datetime_now env_ok w0)) health_data0) = Returned analysis0
   \<and> advisor_envelope ''HealthMonitor'' analysis0
   \<and> map_of analysis0 ''timestamp'' = Some (PStr ''2025-11-30T10:00:01'')
   \<and> advisor_envelope ''MedicalQA'' (fst (answer_question env_quota w0 ''Is tea healthy?''))
   \<and> map_of (fst (answer_question env_quota w0 ''Is tea healthy?'')) ''error''
       = Some (PStr ''quota exceeded'')"
proof -
  have a: "fst (analyze_health_data env_ok (snd (datetime_now env_ok w0)) health_data0)
             = Returned analysis0"
    using analysis_step0 by (simp add: analysis_step_def)
  have q: "map_of (fst (answer_question env_quota w0 ''Is tea healthy?'')) ''error''
             = Some (PStr ''quota exceeded'')"
    by (simp add: advisor_defs except_result_def env_quota_def example_env_def w0_def Let_def)
  from advisor_results_envelope
         [where e = env_ok and w = "snd (datetime_now env_ok w0)" and d = health_data0]
       advisor_results_envelope
         [where e = env_quota and w = w0 and q = "''Is tea healthy?''"]
       a q
  show ?thesis by (simp add: analysis0_def)
qed

text \<open>
  C8 as stated fails: the result of the analysis advisor under a model that raises has
  status error and no timestamp.
\<close>

theorem error_result_has_no_timestamp:
  "fst (analyze_health_data env_quota w0 health_data0) =
     Returned [(''agent'', PStr ''HealthMonitor''), (''status'', PStr ''error''),
               (''error'', PStr ''quota exceeded'')]
   \<and> map_of [(''agent'', PStr ''HealthMonitor''), (''status'', PStr ''error''),
              (''error'', PStr ''quota exceeded'')] ''timestamp'' = None"
  by (simp add: analyze_health_data_def health_prompt0 example_str_of advisor_defs
        except_result_def env_quota_def example_env_def w0_def Let_def)

text \<open>
  C9. Interaction sequences are meant to be append-only. Under the clock that does not
  advance, the session started for \<^verbatim>\<open>u1\<close> holds one interaction after the question;
  starting a session for \<^verbatim>\<open>u1\<close> again returns the same identifier and the
  assignment in \<^verbatim>\<open>create_session\<close> replaces the stored session: its interaction
  sequence is empty afterwards.
\<close>

theorem restart_discards_history:
  "fst restarted = fst first_start
   \<and> fst (snd asked) (fst first_start) =
       Some \<lparr>user_id = ''u1'', created_at = ''2025-11-30T10:00:00'',
              interactions = [PDict [(''agent'', PStr ''MedicalQA''), (''status'', PStr ''error''),
                                     (''error'', PStr ''quota exceeded'')]]\<rparr>
   \<and> fst (snd restarted) (fst first_start) =
       Some \<lparr>user_id = ''u1'', created_at = ''2025-11-30T10:00:00'', interactions = []\<rparr>"
  by (simp add: restarted_def asked_memory first_start_value start_wellness_session_def
        create_session_def datetime_now_def env_stuck_def example_env_def Let_def)

text \<open>
  C10. The health check and the question workflow for session \<open>sid\<close> leave the record
  of every other session identifier as it was.
\<close>

theorem other_sessions_untouched:
  assumes "s \<noteq> sid"
  shows "fst (snd (perform_health_check e mem w sid d p)) s = mem s
         \<and> fst (snd (ask_medical_question e mem w sid q)) s = mem s"
proof -
  from process_health_check_store [of e mem w sid d p] assms
  have "fst (snd (process_health_check e mem w sid d p)) s = mem s"
    by (auto simp: append_step_frame)
  with assms show ?thesis
    by (simp add: perform_health_check_def ask_medical_question_def handle_question_unfold
          append_step_frame)
qed

text \<open>C10 at a concrete input: workflows on \<^verbatim>\<open>s1\<close> in a store that also holds \<^verbatim>\<open>s2\<close>.\<close>

theorem other_sessions_untouched_witness:
  "''s2'' \<noteq> ''s1''
   \<and> fst (snd (perform_health_check env_ok mem2 w0 ''s1'' health_data0 profile0)) ''s2''
       = Some (session0\<lparr>user_id := ''u2''\<rparr>)
   \<and> fst (snd (ask_medical_question env_ok mem2 w0 ''s1'' ''Is tea healthy?'')) ''s2''
       = Some (session0\<lparr>user_id := ''u2''\<rparr>)"
proof -
  have h: "''s2'' \<noteq> ''s1''"
    by simp
  have m: "mem2 ''s2'' = Some (session0\<lparr>user_id := ''u2''\<rparr>)"
    by (simp add: mem2_def)
  from other_sessions_untouched
         [where s = "''s2''" and sid = "''s1''" and e = env_ok and mem = mem2 and w = w0
            and d = health_data0 and p = profile0 and q = "''Is tea healthy?''", OF h]
       h m
  show ?thesis by simp
qed

end
